theory Spec2Isabelle
  imports Complex_Main "HOL-Library.Word"
begin

section \<open>JavaScript strings\<close>

text \<open>
  A JavaScript string is modelled as a HOL \<open>string\<close>, one \<open>char\<close> per code unit. The
  character tables below (white space, word characters, letter case) are those of the
  ASCII range, which is the range the particle names and generated fragments are written
  in; a code unit outside it is treated as an ordinary character that is neither white
  space nor a word character and has no other case.
\<close>

definition lower_letters :: string where
  "lower_letters = ''abcdefghijklmnopqrstuvwxyz''"

definition upper_letters :: string where
  "upper_letters = ''ABCDEFGHIJKLMNOPQRSTUVWXYZ''"

definition digit_chars :: string where
  "digit_chars = ''0123456789''"

definition space_chars :: string where
  "space_chars = [CHR 0x09, CHR 0x0A, CHR 0x0B, CHR 0x0C, CHR 0x0D, CHR 0x20]"

definition is_space :: "char \<Rightarrow> bool" where
  \<comment> \<open>the class \<open>\s\<close>, and the characters \<open>trim\<close> strips\<close>
  "is_space c = (c \<in> set space_chars)"

definition is_word :: "char \<Rightarrow> bool" where
  \<comment> \<open>the class \<open>\w\<close>\<close>
  "is_word c = (c \<in> set (lower_letters @ upper_letters @ digit_chars @ ''_''))"

definition upper_char :: "char \<Rightarrow> char" where
  "upper_char c = (case map_of (zip lower_letters upper_letters) c of Some u \<Rightarrow> u | None \<Rightarrow> c)"

definition lower_char :: "char \<Rightarrow> char" where
  "lower_char c = (case map_of (zip upper_letters lower_letters) c of Some l \<Rightarrow> l | None \<Rightarrow> c)"

definition toUpperCase :: "string \<Rightarrow> string" where
  "toUpperCase s = map upper_char s"

definition toLowerCase :: "string \<Rightarrow> string" where
  "toLowerCase s = map lower_char s"

definition trim :: "string \<Rightarrow> string" where
  "trim s = rev (dropWhile is_space (rev (dropWhile is_space s)))"

definition startsWith :: "string \<Rightarrow> string \<Rightarrow> bool" where
  "startsWith s p = (take (length p) s = p)"

fun includes_str :: "string \<Rightarrow> string \<Rightarrow> bool" where
  "includes_str [] p = (p = [])"
| "includes_str (c # cs) p = (startsWith (c # cs) p \<or> includes_str cs p)"

section \<open>openai.js: validation and colour repair of a generated description\<close>

type_synonym rgb = "int \<times> int \<times> int"

text \<open>
  A property of the parsed response object is absent (or otherwise falsy), a string, or a
  truthy value that is not a string.
\<close>

datatype field = Absent | Text string | NonText

datatype js_error = TypeError | SyntaxError

record particle =
  name :: string
  color :: rgb
  action_code :: field

datatype reason = TooSimilar string | TooSimple | GenericFire | GenericWater

datatype validation = Valid | Invalid reason

definition standardColors :: "(string \<times> rgb) list" where
  "standardColors =
    [(''FIRE'', (255, 0, 10)),
     (''WATER'', (0, 10, 255)),
     (''PLANT'', (0, 220, 0)),
     (''SAND'', (223, 193, 99)),
     (''WALL'', (127, 127, 127)),
     (''OIL'', (150, 60, 0)),
     (''LAVA'', (245, 110, 40)),
     (''ICE'', (200, 200, 255))]"

fun color_distance :: "rgb \<Rightarrow> rgb \<Rightarrow> real" where
  "color_distance (r, g, b) (er, eg, eb) =
     sqrt (real_of_int ((r - er)\<^sup>2 + (g - eg)\<^sup>2 + (b - eb)\<^sup>2))"

definition validateUniqueParticle :: "particle \<Rightarrow> js_error + validation" where
  "validateUniqueParticle particleData =
    (case find (\<lambda>(elementName, e). color_distance (color particleData) e < 60) standardColors of
       Some (elementName, e) \<Rightarrow> Inr (Invalid (TooSimilar elementName))
     | None \<Rightarrow>
        (case action_code particleData of
           Text raw \<Rightarrow>
             (let code = toLowerCase raw; nm = toLowerCase (name particleData) in
              if trim code = ''dogravity(x, y, i, true, 0.9);'' \<or>
                 trim code = ''dogravity(x, y, i, true, 1.0);''
              then Inr (Invalid TooSimple)
              else if includes_str nm ''fire'' \<and> includes_str code ''fire'' \<and>
                      \<not> includes_str code ''water'' \<and> \<not> includes_str code ''sand''
              then Inr (Invalid GenericFire)
              else if includes_str nm ''water'' \<and> includes_str code ''densityliquid'' \<and> length code < 50
              then Inr (Invalid GenericWater)
              else Inr Valid)
         | _ \<Rightarrow> Inl TypeError))"

definition Math_round :: "real \<Rightarrow> int" where
  "Math_round v = \<lfloor>v + 1 / 2\<rfloor>"

text \<open>
  The channels are integers on entry. Only the default rule leaves the integers, scaling
  by \<open>255 / maxChannel\<close> and \<open>0.8\<close> before \<open>Math.round\<close>; the product is taken over the
  reals here.
\<close>

definition vividShift :: "rgb \<Rightarrow> rgb" where
  \<comment> \<open>the default rule: saturation boost, then the channel-wise complement\<close>
  "vividShift c =
    (case c of (r, g, b) \<Rightarrow>
      (let maxChannel = max r (max g b);
           (r2, g2, b2) =
             (if maxChannel > 0
              then (let ratio = 255 / real_of_int maxChannel in
                    (Math_round (real_of_int r * ratio * (8 / 10)),
                     Math_round (real_of_int g * ratio * (8 / 10)),
                     Math_round (real_of_int b * ratio * (8 / 10))))
              else (r, g, b))
       in (255 - r2, 255 - g2, 255 - b2)))"

definition shiftByName :: "string \<Rightarrow> rgb \<Rightarrow> rgb" where
  \<comment> \<open>the \<open>if\<close>/\<open>else if\<close> chain on the upper-cased name\<close>
  "shiftByName nameUpper c =
    (case c of (r, g, b) \<Rightarrow>
      if includes_str nameUpper ''FIRE'' \<or> includes_str nameUpper ''FLAME''
      then (min 255 (r + 20), min 255 (g + 80), min 255 (b + 120))
      else if includes_str nameUpper ''WATER'' \<or> includes_str nameUpper ''LIQUID''
      then (min 255 (r + 40), min 255 (g + 150), max 150 (b - 30))
      else if includes_str nameUpper ''PLANT'' \<or> includes_str nameUpper ''LEAF''
      then (min 255 (r + 100), max 100 (g - 70), min 255 (b + 40))
      else vividShift (r, g, b))"

definition adjustColorForUniqueness :: "rgb \<Rightarrow> string \<Rightarrow> rgb" where
  "adjustColorForUniqueness c nm =
    (case shiftByName (toUpperCase nm) c of (r, g, b) \<Rightarrow>
       (max 0 (min 255 r), max 0 (min 255 g), max 0 (min 255 b)))"

text \<open>
  \<open>generateParticle\<close>, from the parsed response on. The request, the extraction of the
  JSON text and \<open>JSON.parse\<close> belong to the host; their outcome is the \<open>reply\<close>. The colour
  entries of a parsed response are integers, for which \<open>parseInt\<close> is the identity.
\<close>

datatype color_field = NoColor | NotArray | ColorArray "int list"

record raw_particle =
  raw_name :: field
  raw_color :: color_field
  raw_action_code :: field

datatype reply = RequestFailed | NoJson | Parsed raw_particle

datatype gen_error = NotInitialized | ApiError | ParseError

definition truthy :: "field \<Rightarrow> bool" where
  "truthy f = (case f of Absent \<Rightarrow> False | Text s \<Rightarrow> s \<noteq> [] | NonText \<Rightarrow> True)"

definition clamp_channel :: "int \<Rightarrow> int" where
  "clamp_channel v = max 0 (min 255 v)"

definition generateParticle ::
  "bool \<Rightarrow> (string \<rightharpoonup> particle) \<Rightarrow> string \<Rightarrow> reply \<Rightarrow>
     (gen_error + particle) \<times> (string \<rightharpoonup> particle)" where
  "generateParticle initialized customParticles particleName rep =
    (if \<not> initialized then (Inl NotInitialized, customParticles)
     else case rep of
       RequestFailed \<Rightarrow> (Inl ApiError, customParticles)
     | NoJson \<Rightarrow> (Inl ParseError, customParticles)
     | Parsed particleData \<Rightarrow>
        (if \<not> truthy (raw_name particleData) \<or> raw_color particleData = NoColor \<or>
            \<not> truthy (raw_action_code particleData)
         then (Inl ParseError, customParticles)
         else case raw_name particleData of
           Text given \<Rightarrow>
             (let name1 = toUpperCase given;
                  name2 = (if name1 \<noteq> toUpperCase particleName
                           then toUpperCase particleName else name1)
              in case raw_color particleData of
                ColorArray [c0, c1, c2] \<Rightarrow>
                  (let col = (clamp_channel c0, clamp_channel c1, clamp_channel c2);
                       pd = \<lparr>name = name2, color = col,
                             action_code = raw_action_code particleData\<rparr>
                   in case validateUniqueParticle pd of
                     Inl e \<Rightarrow> (Inl ParseError, customParticles)
                   | Inr v \<Rightarrow>
                      (let pd' = (if v \<noteq> Valid
                                  then pd\<lparr>color := adjustColorForUniqueness (color pd) (name pd)\<rparr>
                                  else pd)
                       in (Inr pd', customParticles(particleName \<mapsto> pd'))))
              | _ \<Rightarrow> (Inl ParseError, customParticles))
         | _ \<Rightarrow> (Inl ParseError, customParticles)))"

definition valid_color :: "rgb \<Rightarrow> bool" where
  "valid_color c = (case c of (r, g, b) \<Rightarrow>
     0 \<le> r \<and> r \<le> 255 \<and> 0 \<le> g \<and> g \<le> 255 \<and> 0 \<le> b \<and> b \<le> 255)"

text \<open>A response whose name differs from the requested one, and the description it yields.\<close>

definition slime_reply :: reply where
  "slime_reply = Parsed \<lparr>raw_name = Text ''Goo'', raw_color = ColorArray [120, 250, 120],
     raw_action_code = Text ''if (random() < 0.5) { doGravity(x, y, i, true, 0.5); }''\<rparr>"

definition slime :: particle where
  "slime = \<lparr>name = ''SLIME'', color = (120, 250, 120),
     action_code = Text ''if (random() < 0.5) { doGravity(x, y, i, true, 0.5); }''\<rparr>"

section \<open>custom-particles.js: the template texts\<close>

text \<open>
  The template literals of the source, character for character; a line break of the source
  is the character \<open>\<newline>\<close>.
\<close>

definition explosionTemplate :: "string \<Rightarrow> string" where
  \<comment> \<open>the explosion wrapper of \<open>preprocessActionCode\<close>\<close>
  "explosionTemplate code =
     ''\<newline>'' @
     ''        // Check for contact with fire for explosion\<newline>'' @
     ''        if (adjacent(x, i, FIRE) || below(y, i, FIRE) || above(y, i, FIRE)) {\<newline>'' @
     ''          // Create explosion\<newline>'' @
     ''          gameImagedata32[i] = FIRE;\<newline>'' @
     ''          // Set surrounding pixels to FIRE\<newline>'' @
     ''          if (i+1 < gameImagedata32.length) gameImagedata32[i+1] = FIRE;\<newline>'' @
     ''          if (i-1 >= 0) gameImagedata32[i-1] = FIRE;\<newline>'' @
     ''          if (i+width < gameImagedata32.length) gameImagedata32[i+width] = FIRE;\<newline>'' @
     ''          if (i-width >= 0) gameImagedata32[i-width] = FIRE;\<newline>'' @
     ''        } else {\<newline>'' @
     ''          // Default behavior\<newline>'' @
     ''          '' @ code @ ''\<newline>'' @
     ''        }\<newline>'' @
     ''      ''"

definition hairTemplate :: "string \<Rightarrow> string \<Rightarrow> string" where
  \<comment> \<open>the strand template of \<open>enhanceCodeBasedOnName\<close>; \<open>elementColor\<close> is the colour already printed\<close>
  "hairTemplate particleName elementColor =
     ''\<newline>'' @
     ''      // '' @ particleName @ '' behavior - strands that hang and can be affected by elements\<newline>'' @
     ''      if (adjacent(x, i, FIRE)) {\<newline>'' @
     ''        // Burns quickly when exposed to fire\<newline>'' @
     ''        if (random() < 0.8) {\<newline>'' @
     ''          gameImagedata32[i] = FIRE;\<newline>'' @
     ''        }\<newline>'' @
     ''      } else if (adjacent(x, i, WATER)) {\<newline>'' @
     ''        // Gets wet and clumps together\<newline>'' @
     ''        doGravity(x, y, i, false, 0.95);\<newline>'' @
     ''      } else {\<newline>'' @
     ''        // Normal behavior - strands hang and can move slightly\<newline>'' @
     ''        if (below(y, i, BACKGROUND) && random() < 0.2) {\<newline>'' @
     ''          // Strands can drift slightly to sides\<newline>'' @
     ''          if (random() < 0.5 && gameImagedata32[i+1] === BACKGROUND) {\<newline>'' @
     ''            gameImagedata32[i] = BACKGROUND;\<newline>'' @
     ''            gameImagedata32[i+1] = '' @ elementColor @ '';\<newline>'' @
     ''          } else if (gameImagedata32[i-1] === BACKGROUND) {\<newline>'' @
     ''            gameImagedata32[i] = BACKGROUND;\<newline>'' @
     ''            gameImagedata32[i-1] = '' @ elementColor @ '';\<newline>'' @
     ''          }\<newline>'' @
     ''        } else {\<newline>'' @
     ''          // Falls but can catch on things\<newline>'' @
     ''          doGravity(x, y, i, true, 0.7);\<newline>'' @
     ''        }\<newline>'' @
     ''      }\<newline>'' @
     ''    ''"

definition gasTemplate :: "string \<Rightarrow> string" where
  \<comment> \<open>the gas template of \<open>enhanceCodeBasedOnName\<close>\<close>
  "gasTemplate particleName =
     ''\<newline>'' @
     ''      // '' @ particleName @ '' - gaseous substance that rises and dissipates\<newline>'' @
     ''      doRise(x, y, i, 0.9, 0.7);\<newline>'' @
     ''      \<newline>'' @
     ''      // Gradually disappears as it rises\<newline>'' @
     ''      if (random() < 0.03) {\<newline>'' @
     ''        gameImagedata32[i] = BACKGROUND;\<newline>'' @
     ''      }\<newline>'' @
     ''      \<newline>'' @
     ''      // Affected by heat/fire\<newline>'' @
     ''      if (adjacent(x, i, FIRE) && random() < 0.5) {\<newline>'' @
     ''        // More likely to rise faster near heat\<newline>'' @
     ''        doRise(x, y, i, 1.0, 0.9);\<newline>'' @
     ''      }\<newline>'' @
     ''    ''"

definition liquidTemplate :: "string \<Rightarrow> bool \<Rightarrow> bool \<Rightarrow> string" where
  \<comment> \<open>the liquid template of \<open>enhanceCodeBasedOnName\<close>; \<open>isOil\<close> is \<open>name.includes('OIL')\<close>\<close>
  "liquidTemplate particleName floatsOnWater isOil =
     ''\<newline>'' @
     ''      // '' @ particleName @ '' - liquid with unique properties\<newline>'' @
     ''      // Liquid dynamics - flows and spreads\<newline>'' @
     ''      doDensityLiquid(x, y, i, '' @ (if floatsOnWater then ''WATER'' else ''SAND'') @ '', 0.9, 0.7);\<newline>'' @
     ''      \<newline>'' @
     ''      // Interaction with fire\<newline>'' @
     ''      if (adjacent(x, i, FIRE) && random() < 0.1) {\<newline>'' @
     ''        // Some liquids are flammable, some extinguish fire\<newline>'' @
     ''        '' @ (if isOil then ''gameImagedata32[i] = FIRE;'' else ''gameImagedata32[i] = STEAM;'') @ ''\<newline>'' @
     ''      }\<newline>'' @
     ''    ''"

definition safeActionCodeUpdate :: "string \<Rightarrow> string" where
  \<comment> \<open>the wrapper text of the update branch of \<open>registerCustomParticle\<close>\<close>
  "safeActionCodeUpdate actionCode =
     ''\<newline>'' @
     ''          try {\<newline>'' @
     ''            // Default to simple behavior as fallback\<newline>'' @
     ''            if (Math.random() < 0.1) {\<newline>'' @
     ''              doGravity(x, y, i, true, 0.9);\<newline>'' @
     ''              return;\<newline>'' @
     ''            }\<newline>'' @
     ''            \<newline>'' @
     ''            // Custom particle code below\<newline>'' @
     ''            '' @ actionCode @ ''\<newline>'' @
     ''          } catch (error) {\<newline>'' @
     ''            console.error(\"Error in particle action:\", error);\<newline>'' @
     ''            // Default fallback behavior\<newline>'' @
     ''            doGravity(x, y, i, true, 1.0);\<newline>'' @
     ''          }\<newline>'' @
     ''        ''"

definition safeActionCodeNew :: "string \<Rightarrow> string" where
  \<comment> \<open>the wrapper text of the branch for new particles\<close>
  "safeActionCodeNew actionCode =
     ''\<newline>'' @
     ''        try {\<newline>'' @
     ''          // Default to simple behavior as fallback with small probability\<newline>'' @
     ''          if (Math.random() < 0.1) {\<newline>'' @
     ''            doGravity(x, y, i, true, 0.9);\<newline>'' @
     ''            return;\<newline>'' @
     ''          }\<newline>'' @
     ''          \<newline>'' @
     ''          // Custom particle code below\<newline>'' @
     ''          '' @ actionCode @ ''\<newline>'' @
     ''        } catch (error) {\<newline>'' @
     ''          console.error(\"Error in particle action:\", error);\<newline>'' @
     ''          // Default fallback behavior\<newline>'' @
     ''          doGravity(x, y, i, true, 1.0);\<newline>'' @
     ''        }\<newline>'' @
     ''      ''"

section \<open>Regular expressions and \<open>String.prototype.replace\<close>\<close>

text \<open>
  The regular expressions of the source are sequences of literals and repeated character
  classes. In each of them a repeated class is disjoint from the first character of what
  follows it, so that backtracking can never change the outcome of a greedy run; the
  matcher below consumes each atom greedily. It returns the text matched by each atom, from
  which the whole match (their concatenation) and the capture groups are read.
\<close>

datatype cls = Space | Word | UpperUnderscore | PlusMinus

fun in_cls :: "cls \<Rightarrow> char \<Rightarrow> bool" where
  "in_cls Space c = is_space c"
| "in_cls Word c = is_word c"
| "in_cls UpperUnderscore c = (c \<in> set (upper_letters @ ''_''))"
| "in_cls PlusMinus c = (c \<in> set ''+-'')"

datatype atom = Lit string | Many cls | Many1 cls | One cls

type_synonym regex = "atom list"

fun match_atom :: "atom \<Rightarrow> string \<Rightarrow> (string \<times> string) option" where
  "match_atom (Lit l) s = (if startsWith s l then Some (l, drop (length l) s) else None)"
| "match_atom (Many k) s = Some (takeWhile (in_cls k) s, dropWhile (in_cls k) s)"
| "match_atom (Many1 k) s =
     (case takeWhile (in_cls k) s of
        [] \<Rightarrow> None
      | p # ps \<Rightarrow> Some (p # ps, dropWhile (in_cls k) s))"
| "match_atom (One k) s =
     (case s of [] \<Rightarrow> None | c # cs \<Rightarrow> if in_cls k c then Some ([c], cs) else None)"

fun match_seq :: "regex \<Rightarrow> string \<Rightarrow> string list option" where
  "match_seq [] s = Some []"
| "match_seq (a # as) s =
     (case match_atom a s of
        None \<Rightarrow> None
      | Some (p, rest) \<Rightarrow>
          (case match_seq as rest of None \<Rightarrow> None | Some ps \<Rightarrow> Some (p # ps)))"

text \<open>
  A compiled regular expression, tried at one position of the subject: it sees the
  character before the position (for \<open>\b\<close>) and the rest of the subject, and returns the
  pieces of the match.
\<close>

type_synonym matcher = "char option \<Rightarrow> string \<Rightarrow> string list option"

definition re_matcher :: "regex \<Rightarrow> matcher" where
  "re_matcher re = (\<lambda>prev s. match_seq re s)"

text \<open>
  \<open>subject.replace(re, f)\<close> for a global \<open>re\<close>: the subject is scanned from the left; at a
  match the replacement is emitted and the scan resumes after the match (one character
  further, copied, when the match is empty); elsewhere the character is copied. The
  replacement \<open>f\<close> receives the pieces of the match.
\<close>

fun replaceAll :: "matcher \<Rightarrow> (string list \<Rightarrow> string) \<Rightarrow> char option \<Rightarrow> string \<Rightarrow> string" where
  "replaceAll m f prev [] = (case m prev [] of None \<Rightarrow> [] | Some ps \<Rightarrow> f ps)"
| "replaceAll m f prev (c # cs) =
     (case m prev (c # cs) of
        None \<Rightarrow> c # replaceAll m f (Some c) cs
      | Some ps \<Rightarrow>
          (if concat ps = [] then f ps @ c # replaceAll m f (Some c) cs
           else f ps @ replaceAll m f (Some (last (take (length (concat ps)) (c # cs))))
                         (drop (length (concat ps)) (c # cs))))"

definition replace_re :: "string \<Rightarrow> regex \<Rightarrow> string \<Rightarrow> string" where
  \<comment> \<open>\<open>code.replace(/re/g, 'text')\<close>; none of the replacement texts contains \<open>$\<close>\<close>
  "replace_re code re by = replaceAll (re_matcher re) (\<lambda>ps. by) None code"

fun test_re :: "regex \<Rightarrow> string \<Rightarrow> bool" where
  \<comment> \<open>\<open>/re/.test(s)\<close>: the expression matches at some position of \<open>s\<close>\<close>
  "test_re re [] = (match_seq re [] \<noteq> None)"
| "test_re re (c # cs) = (match_seq re (c # cs) \<noteq> None \<or> test_re re cs)"

fun replaceFirst :: "string \<Rightarrow> string \<Rightarrow> string \<Rightarrow> string" where
  \<comment> \<open>\<open>s.replace(pat, by)\<close> for a string \<open>pat\<close>: the first occurrence only\<close>
  "replaceFirst [] pat by = (if pat = [] then by else [])"
| "replaceFirst (c # cs) pat by =
     (if startsWith (c # cs) pat then by @ drop (length pat) (c # cs)
      else c # replaceFirst cs pat by)"

function digits :: "int \<Rightarrow> string" where
  \<comment> \<open>the decimal digits of a non-negative integer\<close>
  "digits v =
     (if v < 10 then [digit_chars ! nat v]
      else digits (v div 10) @ [digit_chars ! nat (v mod 10)])"
  by pat_completeness auto
termination
  by (relation "measure nat") auto

definition toString :: "int \<Rightarrow> string" where
  \<comment> \<open>\<open>Number.prototype.toString\<close> on an integer (below \<open>10^21\<close> in magnitude)\<close>
  "toString v = (if v < 0 then ''-'' @ digits (- v) else digits v)"

section \<open>custom-particles.js: the sanitizer\<close>

definition re_function :: regex where
  "re_function = [Lit ''function'', Many1 Space, Many1 Word, Many Space, Lit ''('']"

definition re_while :: regex where
  "re_while = [Lit ''while'', Many Space, Lit ''('']"

definition re_for :: regex where
  "re_for = [Lit ''for'', Many Space, Lit ''('']"

definition re_eval :: regex where
  "re_eval = [Lit ''eval'', Many Space, Lit ''('']"

definition re_newFunction :: regex where
  "re_newFunction = [Lit ''new'', Many1 Space, Lit ''Function'']"

definition sanitizeActionCode :: "string \<Rightarrow> string" where
  "sanitizeActionCode code0 =
    (let code1 = replace_re code0 re_function '''';
         code2 = replace_re code1 re_while ''if('';
         code3 = replace_re code2 re_for ''if('';
         code4 = replace_re code3 re_eval ''console.log('';
         code5 = replace_re code4 re_newFunction ''console.log'';
         code6 = replace_re code5 [Lit ''setTimeout''] ''console.log'';
         code7 = replace_re code6 [Lit ''setInterval''] ''console.log'';
         code8 = replace_re code7 [Lit ''window.''] ''void_'';
         code9 = replace_re code8 [Lit ''document.''] ''void_'';
         code10 = replace_re code9 [Lit ''globalThis.''] ''void_''
     in code10)"

section \<open>custom-particles.js: the rewriter\<close>

definition enhanceCodeBasedOnName :: "string \<Rightarrow> string \<Rightarrow> int \<Rightarrow> string" where
  "enhanceCodeBasedOnName code particleName elementColor =
    (let nm = toUpperCase particleName in
     if includes_str nm ''HAIR'' \<or> includes_str nm ''FUR'' \<or> includes_str nm ''STRING''
     then hairTemplate particleName (toString elementColor)
     else if includes_str nm ''GAS'' \<or> includes_str nm ''SMOKE'' \<or> includes_str nm ''VAPOR'' \<or>
             includes_str nm ''STEAM''
     then gasTemplate particleName
     else if includes_str nm ''WATER'' \<or> includes_str nm ''LIQUID'' \<or> includes_str nm ''OIL'' \<or>
             includes_str nm ''JUICE'' \<or> includes_str nm ''BLOOD''
     then (let floatsOnWater = includes_str nm ''OIL''
           in liquidTemplate particleName floatsOnWater (includes_str nm ''OIL''))
     else code)"

definition isKnownElement :: "string \<Rightarrow> bool" where
  "isKnownElement elementName =
    (elementName \<in> set
      [''BACKGROUND'', ''WALL'', ''SAND'', ''WATER'', ''PLANT'', ''FIRE'', ''SALT'', ''OIL'',
       ''SPOUT'', ''WELL'', ''TORCH'', ''GUNPOWDER'', ''WAX'', ''ICE'', ''LAVA'', ''CRYO'',
       ''NITRO'', ''STEAM'', ''C4'', ''FUSE'', ''SALT_WATER'', ''FALLING_WAX''])"

text \<open>
  \<open>new RegExp('\\b' + NAME + '\\b', 'g')\<close>. When the upper-cased name has no syntax
  character of the pattern language the expression matches the name literally between two
  word boundaries, which is what \<open>word_bounded\<close> computes. A name with a syntax character
  is handed to the host's \<open>RegExp\<close> as it is: the result is a syntax error (\<open>None\<close>) or whatever
  expression the host compiles.
\<close>

definition syntax_chars :: string where
  "syntax_chars = [CHR 0x5C, CHR ''^'', CHR ''$'', CHR ''.'', CHR ''*'', CHR ''+'', CHR ''?'',
     CHR ''('', CHR '')'', CHR ''['', CHR '']'', CHR ''{'', CHR ''}'', CHR ''|'']"

definition literal_source :: "string \<Rightarrow> bool" where
  "literal_source s = list_all (\<lambda>c. c \<notin> set syntax_chars) s"

definition word_before :: "char option \<Rightarrow> bool" where
  "word_before prev = (case prev of None \<Rightarrow> False | Some c \<Rightarrow> is_word c)"

definition word_at :: "string \<Rightarrow> bool" where
  "word_at s = (case s of [] \<Rightarrow> False | c # cs \<Rightarrow> is_word c)"

definition word_bounded :: "string \<Rightarrow> matcher" where
  "word_bounded lit = (\<lambda>prev s.
     if word_before prev \<noteq> word_at s \<and> startsWith s lit \<and>
        word_before (if lit = [] then prev else Some (last lit)) \<noteq> word_at (drop (length lit) s)
     then Some [lit] else None)"

definition particleNameRegExp :: "(string \<Rightarrow> matcher option) \<Rightarrow> string \<Rightarrow> matcher option" where
  "particleNameRegExp hostRegExp particleName =
    (let source = toUpperCase particleName in
     if literal_source source then Some (word_bounded source)
     else hostRegExp ([CHR 0x5C, CHR ''b''] @ source @ [CHR 0x5C, CHR ''b'']))"

definition re_bordering :: regex where
  "re_bordering =
    [Lit ''bordering'', Many Space, Lit ''('', Many Space, Lit ''x'', Many Space, Lit '','',
     Many Space, Lit ''y'', Many Space, Lit '','', Many Space, Lit ''i'', Many Space, Lit '','',
     Many Space, Lit ''FIRE'', Many Space, Lit '')'']"

definition arrayAccessPattern :: regex where
  \<comment> \<open>the groups are the pieces 2 (operator), 4 (offset) and 9 (elementName)\<close>
  "arrayAccessPattern =
    [Lit ''gameImagedata32[i'', Many Space, One PlusMinus, Many Space, Many1 Word, Lit '']'',
     Many Space, Lit ''='', Many Space, Many1 UpperUnderscore, Many Space, Lit '';'']"

definition arrayAccessCallback :: "int \<Rightarrow> string list \<Rightarrow> string" where
  "arrayAccessCallback elementColor ps =
    (let match = concat ps; elementName = ps ! 9 in
     if elementName = ''FIRE'' \<or> elementName = ''BACKGROUND'' then match
     else if elementName = ''THIS_ELEMENT_COLOR''
     then replaceFirst match ''THIS_ELEMENT_COLOR'' (toString elementColor)
     else if isKnownElement elementName then match
     else replaceFirst match elementName ''FIRE'')"

definition preprocessActionCode ::
  "(string \<Rightarrow> matcher option) \<Rightarrow> string \<Rightarrow> string \<Rightarrow> int \<Rightarrow> js_error + string" where
  "preprocessActionCode hostRegExp code0 particleName elementColor =
    (let code1 =
           (if length (trim code0) < 50 \<or> trim code0 = ''doGravity(x, y, i, true, 0.9);''
            then (let enhancedCode = enhanceCodeBasedOnName code0 particleName elementColor
                  in if enhancedCode \<noteq> code0 then enhancedCode else code0)
            else code0)
     in case particleNameRegExp hostRegExp particleName of
          None \<Rightarrow> Inl SyntaxError
        | Some nameRe \<Rightarrow>
           (let code2 = replaceAll nameRe (\<lambda>ps. ''THIS_ELEMENT_COLOR'') None code1;
                code3 = replace_re code2 re_bordering
                          ''adjacent(x, i, FIRE) || below(y, i, FIRE) || above(y, i, FIRE)'';
                code4 = replaceAll (re_matcher arrayAccessPattern)
                          (arrayAccessCallback elementColor) None code3;
                code5 = replace_re code4 [Lit ''THIS_ELEMENT_COLOR''] (toString elementColor);
                nm = toUpperCase particleName
            in Inr (if includes_str nm ''TNT'' \<or> includes_str nm ''BOMB'' \<or> includes_str nm ''EXPLO''
                    then (if \<not> includes_str code5 ''FIRE'' \<and> \<not> includes_str code5 ''fire''
                          then explosionTemplate code5 else code5)
                    else code5)))"

section \<open>custom-particles.js: the execution wrapper\<close>

text \<open>
  The simulation state a particle action works on. The cell buffer is the engine's
  \<open>Uint32Array\<close>; whatever else the engine keeps (the random source of the movement
  primitives, the canvas) is the extension of the record.
\<close>

record world =
  gameImagedata32 :: "32 word list"

text \<open>A call either returns or throws; the cells written before a throw stay written.\<close>

datatype 'w completion = Returned 'w | Threw 'w

type_synonym 'a action = "int \<Rightarrow> int \<Rightarrow> int \<Rightarrow> 'a world_scheme \<Rightarrow> 'a world_scheme completion"

text \<open>
  The globals the two scripts use and do not define: the \<open>Function\<close> and \<open>RegExp\<close>
  constructors of the host (\<open>None\<close> is a thrown \<open>SyntaxError\<close>), and the engine's colour
  packing, element constants and movement primitives. The primitives are the engine's
  fixed capability surface; they update the state and return.
\<close>

record 'a globals =
  newFunction :: "string \<Rightarrow> 'a action option"
  newRegExp :: "string \<Rightarrow> matcher option"
  inGameColor :: "int \<Rightarrow> int \<Rightarrow> int \<Rightarrow> int"
  FIRE :: int
  SAND :: int
  doGravity :: "int \<Rightarrow> int \<Rightarrow> int \<Rightarrow> bool \<Rightarrow> real \<Rightarrow> 'a world_scheme \<Rightarrow> 'a world_scheme"
  doDensityLiquid ::
    "int \<Rightarrow> int \<Rightarrow> int \<Rightarrow> int \<Rightarrow> real \<Rightarrow> real \<Rightarrow> 'a world_scheme \<Rightarrow> 'a world_scheme"
  doRise :: "int \<Rightarrow> int \<Rightarrow> int \<Rightarrow> real \<Rightarrow> real \<Rightarrow> 'a world_scheme \<Rightarrow> 'a world_scheme"

definition writeCell :: "int \<Rightarrow> int \<Rightarrow> 'a world_scheme \<Rightarrow> 'a world_scheme" where
  \<comment> \<open>\<open>gameImagedata32[i] = v\<close>: a typed array ignores a write outside its bounds\<close>
  "writeCell i v w =
    (if 0 \<le> i \<and> nat i < length (gameImagedata32 w)
     then w\<lparr>gameImagedata32 := (gameImagedata32 w)[nat i := word_of_int v]\<rparr>
     else w)"

text \<open>
  The timing telemetry of the wrapper only writes a warning to the console and is left out.
\<close>

definition createSafeParticleAction :: "'a globals \<Rightarrow> 'a action \<Rightarrow> string \<Rightarrow> 'a action" where
  "createSafeParticleAction G actionFn particleName = (\<lambda>x y i w.
     case actionFn x y i w of
       Returned w' \<Rightarrow> Returned w'
     | Threw w' \<Rightarrow>
         Returned
          (if includes_str (toUpperCase particleName) ''TNT'' \<or>
              includes_str (toUpperCase particleName) ''BOMB'' \<or>
              includes_str (toUpperCase particleName) ''EXPLO''
           then writeCell i (FIRE G) w'
           else if includes_str (toUpperCase particleName) ''WATER'' \<or>
                   includes_str (toUpperCase particleName) ''LIQUID''
           then doDensityLiquid G x y i (SAND G) (9 / 10) (6 / 10) w'
           else if includes_str (toUpperCase particleName) ''GAS'' \<or>
                   includes_str (toUpperCase particleName) ''SMOKE''
           then doRise G x y i (9 / 10) (6 / 10) w'
           else doGravity G x y i True (8 / 10) w'))"

section \<open>custom-particles.js: the registry\<close>

definition indexOf :: "string \<Rightarrow> char \<Rightarrow> nat option" where
  "indexOf s c = (if c \<in> set s then Some (length (takeWhile (\<lambda>d. d \<noteq> c) s)) else None)"

fun closeBrace :: "string \<Rightarrow> int \<Rightarrow> nat \<Rightarrow> nat option" where
  \<comment> \<open>the loop that looks for the matching closing brace, from index \<open>i\<close> on\<close>
  "closeBrace [] braceCount i = None"
| "closeBrace (c # cs) braceCount i =
     (let count1 = (if c = CHR ''{'' then braceCount + 1 else braceCount);
          count2 = (if c = CHR ''}'' then count1 - 1 else count1)
      in if count2 = 0 then Some i else closeBrace cs count2 (i + 1))"

definition functionBody :: "string \<Rightarrow> string" where
  "functionBody action_code0 =
    (let actionCode = trim action_code0 in
     if startsWith actionCode ''function''
     then (case indexOf actionCode (CHR ''{'') of
             None \<Rightarrow> actionCode
           | Some openBraceIndex \<Rightarrow>
              (case closeBrace (drop (openBraceIndex + 1) actionCode) 1 (openBraceIndex + 1) of
                 None \<Rightarrow> actionCode
               | Some closeBraceIndex \<Rightarrow>
                   trim (take (closeBraceIndex - (openBraceIndex + 1))
                              (drop (openBraceIndex + 1) actionCode))))
     else actionCode)"

text \<open>
  The body of the two \<open>try\<close> blocks of \<open>registerCustomParticle\<close> up to the wrapped callable:
  they differ only in the wrapper text handed to \<open>new Function\<close>.
\<close>

definition compileAction ::
  "'a globals \<Rightarrow> (string \<Rightarrow> string) \<Rightarrow> string \<Rightarrow> int \<Rightarrow> field \<Rightarrow> js_error + 'a action" where
  "compileAction G safeActionCode particleName elementColor code =
    (case code of
       Text raw \<Rightarrow>
        (case preprocessActionCode (newRegExp G) (sanitizeActionCode (functionBody raw))
                particleName elementColor of
           Inl e \<Rightarrow> Inl e
         | Inr actionCode \<Rightarrow>
            (case newFunction G (safeActionCode actionCode) of
               None \<Rightarrow> Inl SyntaxError
             | Some actionFunction \<Rightarrow>
                 Inr (createSafeParticleAction G actionFunction particleName)))
     | _ \<Rightarrow> Inl TypeError)"

text \<open>
  The module state, with the three engine tables registration writes to. Particle names
  are upper-case strings and never name a property that every object inherits.
\<close>

record 'a registry =
  customElementColors :: "string \<rightharpoonup> int"
  customElementActions :: "int \<rightharpoonup> 'a action"
  nextCustomElementIdx :: int
  menuNames :: "int \<rightharpoonup> string"
  elements :: "int list"
  elementActions :: "'a action list"

datatype reg_error = UpdateFailed js_error | CreateFailed js_error

definition getElementColorFromName :: "'a registry \<Rightarrow> string \<Rightarrow> int option" where
  \<comment> \<open>\<open>customElementColors[name] || null\<close>: a stored \<open>0\<close> is falsy\<close>
  "getElementColorFromName st nm =
    (case customElementColors st nm of
       None \<Rightarrow> None
     | Some elementColor \<Rightarrow> if elementColor \<noteq> 0 then Some elementColor else None)"

definition packed :: "'a globals \<Rightarrow> particle \<Rightarrow> int" where
  \<comment> \<open>\<open>__inGameColor(r, g, b)\<close> of the colour of a description\<close>
  "packed G p = (case color p of (r, g, b) \<Rightarrow> inGameColor G r g b)"

definition updateExisting ::
  "'a globals \<Rightarrow> 'a registry \<Rightarrow> particle \<Rightarrow> int \<Rightarrow> (reg_error + int) \<times> 'a registry" where
  "updateExisting G st particleData elementColor =
    (case compileAction G safeActionCodeUpdate (name particleData) elementColor
            (action_code particleData) of
       Inl e \<Rightarrow> (Inl (UpdateFailed e), st)
     | Inr safeFunction \<Rightarrow>
         (Inr elementColor,
          st\<lparr>customElementActions := (customElementActions st)(elementColor \<mapsto> safeFunction)\<rparr>))"

definition registerNew ::
  "'a globals \<Rightarrow> 'a registry \<Rightarrow> particle \<Rightarrow> (reg_error + int) \<times> 'a registry" where
  "registerNew G st particleData =
    (case color particleData of (r, g, b) \<Rightarrow>
      (let particleName = name particleData;
           elementColor = inGameColor G r g b;
           st1 = st\<lparr>customElementColors := (customElementColors st)(particleName \<mapsto> elementColor),
                    menuNames := (menuNames st)(elementColor \<mapsto> particleName)\<rparr>
       in case compileAction G safeActionCodeNew particleName elementColor
                 (action_code particleData) of
            Inl e \<Rightarrow> (Inl (CreateFailed e), st1)
          | Inr safeFunction \<Rightarrow>
              (Inr elementColor,
               st1\<lparr>customElementActions := (customElementActions st1)(elementColor \<mapsto> safeFunction),
                   elements := elements st1 @ [elementColor],
                   elementActions := elementActions st1 @ [safeFunction],
                   nextCustomElementIdx := nextCustomElementIdx st1 + 1\<rparr>)))"

text \<open>
  \<open>registerCustomParticle\<close>: the returned registry is the module state when the call
  returns or throws. The call to \<open>updateCustomParticlesList\<close> only redraws the list of
  buttons.
\<close>

definition registerCustomParticle ::
  "'a globals \<Rightarrow> 'a registry \<Rightarrow> particle \<Rightarrow> (reg_error + int) \<times> 'a registry" where
  "registerCustomParticle G st particleData =
    (case getElementColorFromName st (name particleData) of
       Some elementColor \<Rightarrow> updateExisting G st particleData elementColor
     | None \<Rightarrow> registerNew G st particleData)"

section \<open>Example hosts and descriptions\<close>

text \<open>
  A host for the examples: colours are packed as \<open>0xff000000 + (b << 16) + (g << 8) + r\<close>,
  the movement primitives leave the state alone, no name with a syntax character compiles
  to a regular expression, and \<open>new Function\<close> is the given \<open>compile\<close>.
\<close>

definition example_globals :: "(string \<Rightarrow> unit action option) \<Rightarrow> unit globals" where
  "example_globals compile =
    \<lparr>newFunction = compile,
     newRegExp = (\<lambda>source. None),
     inGameColor = (\<lambda>r g b. 4278190080 + b * 65536 + g * 256 + r),
     FIRE = 4278845695,
     SAND = 4284727775,
     doGravity = (\<lambda>x y i diagonal chance w. w),
     doDensityLiquid = (\<lambda>x y i other sink equalize w. w),
     doRise = (\<lambda>x y i rise adjacent w. w)\<rparr>"

definition picky :: "string \<Rightarrow> unit action option" where
  \<comment> \<open>a function text with a stray \<open>@\<close> is a syntax error; any other text compiles, here to a
     function that throws when it is called\<close>
  "picky body = (if CHR ''@'' \<in> set body then None else Some (\<lambda>x y i w. Threw w))"

definition initial_registry :: "unit registry" where
  \<comment> \<open>the module state at load time, over empty engine tables\<close>
  "initial_registry =
    \<lparr>customElementColors = Map.empty, customElementActions = Map.empty,
     nextCustomElementIdx = 64, menuNames = Map.empty, elements = [], elementActions = []\<rparr>"

definition broken :: particle where
  "broken = \<lparr>name = ''X'', color = (1, 2, 3), action_code = Text ''@''\<rparr>"

definition repaired :: particle where
  "repaired = \<lparr>name = ''X'', color = (1, 2, 3), action_code = Text ''doGravity(x, y, i, true, 0.5);''\<rparr>"

definition acid :: particle where
  "acid = \<lparr>name = ''ACID'', color = (10, 200, 30), action_code = Text ''doGravity(x, y, i, true, 0.5);''\<rparr>"

definition slimy :: particle where
  "slimy = \<lparr>name = ''SLIMY'', color = (10, 200, 30), action_code = Text ''doRise(x, y, i, 0.5, 0.5);''\<rparr>"

definition tnt :: particle where
  "tnt = \<lparr>name = ''TNT'', color = (255, 60, 30), action_code = Text ''explode();''\<rparr>"

definition tnt_again :: particle where
  "tnt_again = \<lparr>name = ''TNT'', color = (1, 2, 3), action_code = Text ''@''\<rparr>"

definition after :: "unit registry \<Rightarrow> particle \<Rightarrow> unit registry" where
  \<comment> \<open>the registry after registering a description on the example host\<close>
  "after st p = snd (registerCustomParticle (example_globals picky) st p)"

section \<open>Notions used in the proofs about the rewriting rules\<close>

definition accepts :: "regex \<Rightarrow> string \<Rightarrow> bool" where
  \<comment> \<open>the expression matches at the start of the subject\<close>
  "accepts re s = (match_seq re s \<noteq> None)"

text \<open>
  \<open>fails_on q r\<close>: the expression \<open>q\<close> is refuted by the characters of \<open>r\<close> alone, so that it
  matches at the start of no subject that begins with \<open>r\<close>.
\<close>

fun fails_on :: "regex \<Rightarrow> string \<Rightarrow> bool" where
  "fails_on [] r = False"
| "fails_on (Lit [] # q) r = fails_on q r"
| "fails_on (Lit (k # ks) # q) [] = False"
| "fails_on (Lit (k # ks) # q) (c # cs) = (k \<noteq> c \<or> fails_on (Lit ks # q) cs)"
| "fails_on (Many cl # q) [] = False"
| "fails_on (Many cl # q) (c # cs) =
     (if in_cls cl c then fails_on (Many cl # q) cs else fails_on q (c # cs))"
| "fails_on (Many1 cl # q) [] = False"
| "fails_on (Many1 cl # q) (c # cs) = (\<not> in_cls cl c \<or> fails_on (Many cl # q) cs)"
| "fails_on (One cl # q) [] = False"
| "fails_on (One cl # q) (c # cs) = (\<not> in_cls cl c \<or> fails_on q cs)"

text \<open>
  \<open>inert r q\<close>: every state the matcher of \<open>q\<close> can be in, from the start of \<open>q\<close> to its end,
  is refuted by the replacement text \<open>r\<close>; \<open>tails_fail q r\<close>: no match of \<open>q\<close> starts inside \<open>r\<close>.
  Together they say that an inserted \<open>r\<close> can be no part of a match of \<open>q\<close>.
\<close>

fun atom_len :: "atom \<Rightarrow> nat" where
  "atom_len (Lit l) = Suc (length l)"
| "atom_len a = Suc 0"

function inert :: "string \<Rightarrow> regex \<Rightarrow> bool" where
  "inert r [] = True"
| "inert r (Lit [] # q) = inert r q"
| "inert r (Lit (k # ks) # q) = (fails_on (Lit (k # ks) # q) r \<and> inert r (Lit ks # q))"
| "inert r (Many cl # q) = (fails_on (Many cl # q) r \<and> inert r q)"
| "inert r (Many1 cl # q) = (fails_on (Many1 cl # q) r \<and> fails_on (Many cl # q) r \<and> inert r q)"
| "inert r (One cl # q) = (fails_on (One cl # q) r \<and> inert r q)"
  by pat_completeness auto
termination
  by (relation "measure (\<lambda>(r, q). sum_list (map atom_len q))") auto

fun tails_fail :: "regex \<Rightarrow> string \<Rightarrow> bool" where
  "tails_fail q [] = True"
| "tails_fail q (c # cs) = (fails_on q (c # cs) \<and> tails_fail q cs)"

fun starts_with_literal :: "regex \<Rightarrow> bool" where
  "starts_with_literal (Lit (k # ks) # q) = True"
| "starts_with_literal q = False"

definition sanitize_rules :: "(regex \<times> string) list" where
  \<comment> \<open>the ten replacements of \<open>sanitizeActionCode\<close>, in order\<close>
  "sanitize_rules =
    [(re_function, ''''), (re_while, ''if(''), (re_for, ''if(''), (re_eval, ''console.log(''),
     (re_newFunction, ''console.log''), ([Lit ''setTimeout''], ''console.log''),
     ([Lit ''setInterval''], ''console.log''), ([Lit ''window.''], ''void_''),
     ([Lit ''document.''], ''void_''), ([Lit ''globalThis.''], ''void_'')]"

definition harmless :: "regex \<Rightarrow> regex \<times> string \<Rightarrow> bool" where
  \<comment> \<open>the rule cannot create a match of the expression\<close>
  "harmless q rule = (inert (snd rule) q \<and> tails_fail q (snd rule))"

fun eliminated :: "regex \<Rightarrow> (regex \<times> string) list \<Rightarrow> bool" where
  \<comment> \<open>some rule removes the matches of the expression and no later rule creates one\<close>
  "eliminated q [] = False"
| "eliminated q (rule # rules) =
     ((fst rule = q \<and> starts_with_literal q \<and> harmless q rule \<and> list_all (harmless q) rules)
      \<or> eliminated q rules)"




definition apply_rule :: "string \<Rightarrow> regex \<times> string \<Rightarrow> string" where
  \<comment> \<open>one replacement of the sanitizer\<close>
  "apply_rule s rule = replace_re s (fst rule) (snd rule)"

section \<open>Properties of the validator and the colour adjuster\<close>

lemma sqrt_lt_60: "0 \<le> v \<Longrightarrow> (sqrt v < 60) = (v < 3600)"
proof -
  have "sqrt 3600 = 60"
    using real_sqrt_abs [of 60] by simp
  then show ?thesis
    using real_sqrt_less_iff [of v 3600] by simp
qed

lemma color_distance_lt_60:
  "(color_distance (r, g, b) (er, eg, eb) < 60) =
     ((r - er)\<^sup>2 + (g - eg)\<^sup>2 + (b - eb)\<^sup>2 < 3600)"
proof -
  have "0 \<le> real_of_int ((r - er)\<^sup>2 + (g - eg)\<^sup>2 + (b - eb)\<^sup>2)"
    by simp
  from sqrt_lt_60 [OF this] show ?thesis
    by (simp del: of_int_add of_int_power)
qed


lemma upper_TNT: "toUpperCase ''TNT'' = ''TNT''"
  by (simp add: toUpperCase_def upper_char_def lower_letters_def upper_letters_def)

lemma adjust_range: "valid_color (adjustColorForUniqueness (r, g, b) nm)"
proof -
  obtain r' g' b' where a: "adjustColorForUniqueness (r, g, b) nm = (r', g', b')"
    by (cases "adjustColorForUniqueness (r, g, b) nm") auto
  obtain r1 g1 b1 where s: "shiftByName (toUpperCase nm) (r, g, b) = (r1, g1, b1)"
    by (cases "shiftByName (toUpperCase nm) (r, g, b)") auto
  from a s have "r' = max 0 (min 255 r1)" "g' = max 0 (min 255 g1)" "b' = max 0 (min 255 b1)"
    by (simp_all add: adjustColorForUniqueness_def)
  then show ?thesis by (simp add: a valid_color_def)
qed

lemma round_scaled: "0 < m \<Longrightarrow> Math_round (real_of_int v * (255 / real_of_int m) * (8 / 10)) = (408 * v + m) div (2 * m)"
proof -
  assume m: "0 < m"
  have "real_of_int v * (255 / real_of_int m) * (8 / 10) + 1 / 2 = real_of_int (408 * v + m) / real_of_int (2 * m)"
    using m by (simp add: field_simps)
  then show ?thesis
    unfolding Math_round_def by (simp only: floor_divide_of_int_eq)
qed

lemma vividShift_int:
  "vividShift (r, g, b) =
     (let m = max r (max g b) in
      if 0 < m then (255 - (408 * r + m) div (2 * m), 255 - (408 * g + m) div (2 * m),
                     255 - (408 * b + m) div (2 * m))
      else (255 - r, 255 - g, 255 - b))"
proof -
  have n: "\<And>v m. 0 < m \<Longrightarrow> Math_round (204 * real_of_int v / real_of_int m) = (408 * v + m) div (2 * m)"
    using round_scaled by simp
  show ?thesis
    by (simp add: vividShift_def Let_def n)
qed

lemma vivid_fixed:
  assumes "0 \<le> r" "0 \<le> g" "0 \<le> b" "r \<le> 255" "g \<le> 255" "b \<le> 255"
  shows "(case vividShift (r, g, b) of (x, y, z) \<Rightarrow> (max 0 (min 255 x), max 0 (min 255 y), max 0 (min 255 z))) = (r, g, b)
          \<longleftrightarrow> (r, g, b) = (51, 51, 51)"
proof (cases "0 < max r (max g b)")
  case False
  with assms have "r = 0" "g = 0" "b = 0" by auto
  then show ?thesis by (simp add: vividShift_int)
next
  case True
  define m where "m = max r (max g b)"
  have m0: "0 < m" using True m_def by simp
  have top: "(408 * m + m) div (2 * m) = 204"
  proof -
    have "408 * m + m = 204 * (2 * m) + m" by simp
    then have "(408 * m + m) div (2 * m) = 204 + m div (2 * m)"
      using m0 by (metis div_mult_self3 mult.commute not_less_iff_gr_or_eq mult_eq_0_iff zero_neq_numeral)
    then show ?thesis using m0 by simp
  qed
  show ?thesis
  proof
    assume eq: "(case vividShift (r, g, b) of (x, y, z) \<Rightarrow> (max 0 (min 255 x), max 0 (min 255 y), max 0 (min 255 z))) = (r, g, b)"
    then have rr: "max 0 (min 255 (255 - (408 * r + m) div (2 * m))) = r"
      and gg: "max 0 (min 255 (255 - (408 * g + m) div (2 * m))) = g"
      and bb: "max 0 (min 255 (255 - (408 * b + m) div (2 * m))) = b"
      using m0 by (simp_all add: vividShift_int m_def [symmetric] Let_def)
    have "m = r \<or> m = g \<or> m = b"
      unfolding m_def max_def by simp
    then consider (r) "m = r" | (g) "m = g" | (b) "m = b"
      by blast
    then have "max 0 (min 255 (255 - (408 * m + m) div (2 * m))) = m"
    proof cases
      case r
      from rr show ?thesis unfolding r by assumption
    next
      case g
      from gg show ?thesis unfolding g by assumption
    next
      case b
      from bb show ?thesis unfolding b by assumption
    qed
    then have m51: "m = 51" using m0 by simp
    have d: "(408 * v + 51) div 102 = 4 * v" for v :: int
    proof -
      have "(51 + 102 * (4 * v)) div 102 = 4 * v + 51 div 102"
        by (rule div_mult_self2) simp
      then show ?thesis by (simp add: algebra_simps)
    qed
    have fix51: "v = 51" if "0 \<le> v" "v \<le> 51" "max 0 (min 255 (255 - (408 * v + 51) div 102)) = v" for v :: int
      using that unfolding d by (simp add: max_def min_def split: if_splits)
    have le: "r \<le> m" "g \<le> m" "b \<le> m" unfolding m_def by auto
    have "r = 51" using fix51 [of r] rr assms(1) le(1) by (simp add: m51)
    moreover have "g = 51" using fix51 [of g] gg assms(2) le(2) by (simp add: m51)
    moreover have "b = 51" using fix51 [of b] bb assms(3) le(3) by (simp add: m51)
    ultimately show "(r, g, b) = (51, 51, 51)" by simp
  next
    assume "(r, g, b) = (51, 51, 51)"
    then show "(case vividShift (r, g, b) of (x, y, z) \<Rightarrow> (max 0 (min 255 x), max 0 (min 255 y), max 0 (min 255 z))) = (r, g, b)"
      by (simp add: vividShift_int)
  qed
qed




lemma channel_fixed:
  fixes v :: int
  assumes "0 \<le> v" "v \<le> 255"
  shows "(max 0 (min 255 (min 255 (v + 20))) = v) = (v = 255)"
    and "(max 0 (min 255 (min 255 (v + 80))) = v) = (v = 255)"
    and "(max 0 (min 255 (min 255 (v + 120))) = v) = (v = 255)"
    and "(max 0 (min 255 (min 255 (v + 40))) = v) = (v = 255)"
    and "(max 0 (min 255 (min 255 (v + 150))) = v) = (v = 255)"
    and "(max 0 (min 255 (min 255 (v + 100))) = v) = (v = 255)"
    and "(max 0 (min 255 (max 150 (v - 30))) = v) = (v = 150)"
    and "(max 0 (min 255 (max 100 (v - 70))) = v) = (v = 100)"
  using assms by (simp_all add: min_def max_def)

text \<open>
  Claim C7, as the code has it. For a colour with its three channels in \<open>[0,255]\<close> and any
  name, \<open>adjustColorForUniqueness\<close> returns three integer channels in \<open>[0,255]\<close>. The result
  differs from the input except at the one fixed point of the rule the name selects:
  \<open>[255,255,255]\<close> for a fire name, \<open>[255,255,150]\<close> for a liquid name, \<open>[255,100,255]\<close> for a
  plant name and \<open>[51,51,51]\<close> for every other name.
\<close>
theorem adjustColor_range_and_fixed_points:
  assumes "valid_color (r, g, b)"
  shows "valid_color (adjustColorForUniqueness (r, g, b) nm) \<and>
         (adjustColorForUniqueness (r, g, b) nm = (r, g, b)) =
           ((r, g, b) =
             (if includes_str (toUpperCase nm) ''FIRE'' \<or> includes_str (toUpperCase nm) ''FLAME''
              then (255, 255, 255)
              else if includes_str (toUpperCase nm) ''WATER'' \<or> includes_str (toUpperCase nm) ''LIQUID''
              then (255, 255, 150)
              else if includes_str (toUpperCase nm) ''PLANT'' \<or> includes_str (toUpperCase nm) ''LEAF''
              then (255, 100, 255)
              else (51, 51, 51)))"
proof -
  have v: "0 \<le> r" "0 \<le> g" "0 \<le> b" "r \<le> 255" "g \<le> 255" "b \<le> 255"
    using assms by (simp_all add: valid_color_def)
  define fire where "fire = (includes_str (toUpperCase nm) ''FIRE'' \<or> includes_str (toUpperCase nm) ''FLAME'')"
  define water where "water = (includes_str (toUpperCase nm) ''WATER'' \<or> includes_str (toUpperCase nm) ''LIQUID'')"
  define plant where "plant = (includes_str (toUpperCase nm) ''PLANT'' \<or> includes_str (toUpperCase nm) ''LEAF'')"
  have adj: "adjustColorForUniqueness (r, g, b) nm =
     (case (if fire then (min 255 (r + 20), min 255 (g + 80), min 255 (b + 120))
            else if water then (min 255 (r + 40), min 255 (g + 150), max 150 (b - 30))
            else if plant then (min 255 (r + 100), max 100 (g - 70), min 255 (b + 40))
            else vividShift (r, g, b))
      of (x, y, z) \<Rightarrow> (max 0 (min 255 x), max 0 (min 255 y), max 0 (min 255 z)))"
    by (simp add: adjustColorForUniqueness_def shiftByName_def fire_def water_def plant_def)
  note cf = channel_fixed [OF v(1) v(4)] channel_fixed [OF v(2) v(5)] channel_fixed [OF v(3) v(6)]
  have fixed: "(adjustColorForUniqueness (r, g, b) nm = (r, g, b)) =
      ((r, g, b) = (if fire then (255, 255, 255) else if water then (255, 255, 150)
                    else if plant then (255, 100, 255) else (51, 51, 51)))"
  proof (cases fire)
    case True
    then show ?thesis
      by (simp only: adj if_True prod.case prod.inject cf)
  next
    case nf: False
    show ?thesis
    proof (cases water)
      case True
      then show ?thesis
        using nf by (simp only: adj if_True if_False prod.case prod.inject cf)
    next
      case nw: False
      show ?thesis
      proof (cases plant)
        case True
        then show ?thesis
          using nf nw by (simp only: adj if_True if_False prod.case prod.inject cf)
      next
        case False
        then show ?thesis
          using nf nw vivid_fixed [OF v] by (simp only: adj if_False)
      qed
    qed
  qed
  show ?thesis
    using adjust_range [of r g b nm] fixed
    unfolding fire_def water_def plant_def by (rule conjI)
qed

lemma upper_FIRE: "toUpperCase ''FIRE'' = ''FIRE''"
  by (simp add: toUpperCase_def upper_char_def lower_letters_def upper_letters_def)

theorem adjustColor_range_and_fixed_points_witness:
  "valid_color (255, 255, 255) \<and> valid_color (adjustColorForUniqueness (255, 255, 255) ''FIRE'') \<and>
   adjustColorForUniqueness (255, 255, 255) ''FIRE'' = (255, 255, 255)"
proof -
  have h: "valid_color (255, 255, 255)" by (simp add: valid_color_def)
  from adjustColor_range_and_fixed_points [OF h, of "''FIRE''"] h show ?thesis
    by (simp add: upper_FIRE startsWith_def)
qed

text \<open>
  The claim as written (the result always differs from the input) fails for the name
  \<open>FIRE\<close> and the colour \<open>[255,255,255]\<close>: every channel is already saturated.
\<close>

theorem adjustColor_differs_counterexample:
  "\<not> (adjustColorForUniqueness (255, 255, 255) ''FIRE'' \<noteq> (255, 255, 255))"
  by (simp add: adjustColorForUniqueness_def shiftByName_def upper_FIRE startsWith_def)



subsection \<open>The TNT example\<close>

text \<open>
  Claim C8, as the code has it. For the name \<open>TNT\<close> and the colour \<open>[255,60,30]\<close> the distance
  to FIRE \<open>[255,0,10]\<close> is \<open>sqrt 4000\<close> (about 63.2), which is not below 60; the validator
  flags the description because of LAVA \<open>[245,110,40]\<close>, at distance \<open>sqrt 2700\<close> (about 52),
  whatever the action code is. The name matches no fire, liquid or plant keyword, so the
  adjuster applies the default rule (saturation boost and complement) and returns
  \<open>[51,207,231]\<close>.
\<close>
theorem tnt_example:
  "color_distance (255, 60, 30) (255, 0, 10) = sqrt 4000 \<and>
   \<not> color_distance (255, 60, 30) (255, 0, 10) < 60 \<and>
   color_distance (255, 60, 30) (245, 110, 40) = sqrt 2700 \<and>
   color_distance (255, 60, 30) (245, 110, 40) < 60 \<and>
   validateUniqueParticle \<lparr>name = ''TNT'', color = (255, 60, 30), action_code = a\<rparr>
     = Inr (Invalid (TooSimilar ''LAVA'')) \<and>
   shiftByName (toUpperCase ''TNT'') (255, 60, 30) = vividShift (255, 60, 30) \<and>
   adjustColorForUniqueness (255, 60, 30) ''TNT'' = (51, 207, 231)"
  by (simp add: validateUniqueParticle_def standardColors_def sqrt_lt_60
      adjustColorForUniqueness_def shiftByName_def vividShift_def upper_TNT startsWith_def
      Math_round_def)

text \<open>
  The claim as written fails on both counts: the distance to FIRE is not below the
  threshold, and the adjusted colour is not the one the fire-keyword rule would give.
\<close>

theorem tnt_example_counterexample:
  "\<not> (color_distance (255, 60, 30) (255, 0, 10) < 60) \<and>
   \<not> (includes_str (toUpperCase ''TNT'') ''FIRE'' \<or> includes_str (toUpperCase ''TNT'') ''FLAME'') \<and>
   adjustColorForUniqueness (255, 60, 30) ''TNT'' \<noteq>
     (min 255 (255 + 20), min 255 (60 + 80), min 255 (30 + 120))"
  by (simp add: sqrt_lt_60 adjustColorForUniqueness_def shiftByName_def vividShift_def upper_TNT
      startsWith_def Math_round_def)



section \<open>Properties of generateParticle\<close>

text \<open>
  Claim C10. Whenever \<open>generateParticle\<close> completes with a description, the \<open>name\<close> of that
  description is the requested name in upper case, whatever name the response carried; the
  description stored under the requested name is the returned one.
\<close>
theorem generateParticle_name_is_requested:
  "generateParticle ini store nm rep = (Inr p, store') \<Longrightarrow>
     name p = toUpperCase nm \<and> store' nm = Some p"
  unfolding generateParticle_def Let_def
  by (auto split: if_splits reply.splits field.splits color_field.splits list.splits sum.splits)

lemma lower_eval:
  "toLowerCase ''SLIME'' = ''slime''"
  "toLowerCase ''if (random() < 0.5) { doGravity(x, y, i, true, 0.5); }'' =
     ''if (random() < 0.5) { dogravity(x, y, i, true, 0.5); }''"
  "toUpperCase ''slime'' = ''SLIME''"
  "toUpperCase ''Goo'' = ''GOO''"
  by (simp_all add: toLowerCase_def toUpperCase_def lower_char_def upper_char_def
      lower_letters_def upper_letters_def)

lemma slime_generated:
  "generateParticle True Map.empty ''slime'' slime_reply = (Inr slime, [''slime'' \<mapsto> slime])"
  by (simp add: generateParticle_def Let_def slime_reply_def slime_def truthy_def clamp_channel_def
      validateUniqueParticle_def standardColors_def sqrt_lt_60 lower_eval trim_def is_space_def
      space_chars_def startsWith_def)

theorem generateParticle_name_is_requested_witness:
  "generateParticle True Map.empty ''slime'' slime_reply = (Inr slime, [''slime'' \<mapsto> slime]) \<and>
   name slime = toUpperCase ''slime''"
  using generateParticle_name_is_requested [OF slime_generated] slime_generated by simp

section \<open>Properties of the registry and the execution wrapper\<close>

lemma compileAction_cases:
  "(\<exists>e. compileAction G wrap nm col code = Inl e) \<or>
   (\<exists>actionFn body. newFunction G body = Some actionFn \<and>
      compileAction G wrap nm col code = Inr (createSafeParticleAction G actionFn nm))"
  unfolding compileAction_def
  by (simp split: field.splits sum.splits option.splits) blast

lemma updateExisting_cases:
  "(\<exists>e. compileAction G safeActionCodeUpdate (name p) c (action_code p) = Inl e \<and>
        updateExisting G st p c = (Inl (UpdateFailed e), st)) \<or>
   (\<exists>actionFn body. newFunction G body = Some actionFn \<and> \<not> isl (compileAction G safeActionCodeUpdate (name p) c (action_code p)) \<and>
      updateExisting G st p c =
      (Inr c, st\<lparr>customElementActions :=
                  (customElementActions st)(c \<mapsto> createSafeParticleAction G actionFn (name p))\<rparr>))"
  using compileAction_cases [of G safeActionCodeUpdate "name p" c "action_code p"]
  by (auto simp: updateExisting_def)

lemma registerNew_cases:
  "(\<exists>e. compileAction G safeActionCodeNew (name p) (packed G p) (action_code p) = Inl e \<and>
        registerNew G st p =
          (Inl (CreateFailed e),
           st\<lparr>customElementColors := (customElementColors st)(name p \<mapsto> packed G p),
              menuNames := (menuNames st)(packed G p \<mapsto> name p)\<rparr>)) \<or>
   (\<exists>actionFn body. newFunction G body = Some actionFn \<and> \<not> isl (compileAction G safeActionCodeNew (name p) (packed G p) (action_code p)) \<and>
      registerNew G st p =
      (Inr (packed G p),
       st\<lparr>customElementColors := (customElementColors st)(name p \<mapsto> packed G p),
          menuNames := (menuNames st)(packed G p \<mapsto> name p),
          customElementActions :=
            (customElementActions st)(packed G p \<mapsto> createSafeParticleAction G actionFn (name p)),
          elements := elements st @ [packed G p],
          elementActions := elementActions st @ [createSafeParticleAction G actionFn (name p)],
          nextCustomElementIdx := nextCustomElementIdx st + 1\<rparr>))"
  using compileAction_cases [of G safeActionCodeNew "name p" "packed G p" "action_code p"]
  by (cases "color p") (auto simp: registerNew_def packed_def Let_def)

lemma failed_new_registration:
  assumes "getElementColorFromName st (name p) = None"
    and "compileAction G safeActionCodeNew (name p) (packed G p) (action_code p) = Inl e"
  shows "registerCustomParticle G st p =
          (Inl (CreateFailed e),
           st\<lparr>customElementColors := (customElementColors st)(name p \<mapsto> packed G p),
              menuNames := (menuNames st)(packed G p \<mapsto> name p)\<rparr>)"
  using assms registerNew_cases [of G p st]
  by (auto simp: registerCustomParticle_def registerNew_def packed_def Let_def split: prod.splits)

lemma new_registration:
  assumes "getElementColorFromName st (name p) = None"
    and "\<not> isl (compileAction G safeActionCodeNew (name p) (packed G p) (action_code p))"
  shows "fst (registerCustomParticle G st p) = Inr (packed G p)"
    and "customElementColors (snd (registerCustomParticle G st p)) =
           (customElementColors st)(name p \<mapsto> packed G p)"
    and "menuNames (snd (registerCustomParticle G st p)) = (menuNames st)(packed G p \<mapsto> name p)"
    and "elements (snd (registerCustomParticle G st p)) = elements st @ [packed G p]"
    and "nextCustomElementIdx (snd (registerCustomParticle G st p)) = nextCustomElementIdx st + 1"
  using assms registerNew_cases [of G p st]
  by (auto simp: registerCustomParticle_def)


lemma update_registration:
  assumes "getElementColorFromName st (name p) = Some c"
    and "\<not> isl (compileAction G safeActionCodeUpdate (name p) c (action_code p))"
  shows "fst (registerCustomParticle G st p) = Inr c"
    and "customElementColors (snd (registerCustomParticle G st p)) = customElementColors st"
    and "menuNames (snd (registerCustomParticle G st p)) = menuNames st"
    and "elements (snd (registerCustomParticle G st p)) = elements st"
    and "nextCustomElementIdx (snd (registerCustomParticle G st p)) = nextCustomElementIdx st"
  using assms updateExisting_cases [of G p c st]
  by (auto simp: registerCustomParticle_def)

subsection \<open>The examples on the example host\<close>

lemma example_fields:
  "name broken = ''X''" "action_code broken = Text ''@''"
  "name repaired = ''X''" "action_code repaired = Text ''doGravity(x, y, i, true, 0.5);''"
  "name acid = ''ACID''" "action_code acid = Text ''doGravity(x, y, i, true, 0.5);''"
  "name slimy = ''SLIMY''" "action_code slimy = Text ''doRise(x, y, i, 0.5, 0.5);''"
  "name tnt = ''TNT''" "action_code tnt = Text ''explode();''"
  "name tnt_again = ''TNT''" "action_code tnt_again = Text ''@''"
  by (simp_all add: broken_def repaired_def acid_def slimy_def tnt_def tnt_again_def)

lemma example_packed:
  "packed (example_globals picky) broken = 4278387201"
  "packed (example_globals picky) repaired = 4278387201"
  "packed (example_globals picky) acid = 4280207370"
  "packed (example_globals picky) slimy = 4280207370"
  "packed (example_globals picky) tnt = 4280171775"
  by (simp_all add: packed_def example_globals_def broken_def repaired_def acid_def slimy_def tnt_def)

lemma example_runs:
  "case_sum (\<lambda>e. e = SyntaxError) (\<lambda>f. False)
     (compileAction (example_globals picky) safeActionCodeNew ''X'' 4278387201 (Text ''@''))"
  "\<not> isl (compileAction (example_globals picky) safeActionCodeNew ''X'' 4278387201
            (Text ''doGravity(x, y, i, true, 0.5);''))"
  "\<not> isl (compileAction (example_globals picky) safeActionCodeUpdate ''X'' 4278387201
            (Text ''doGravity(x, y, i, true, 0.5);''))"
  "\<not> isl (compileAction (example_globals picky) safeActionCodeNew ''ACID'' 4280207370
            (Text ''doGravity(x, y, i, true, 0.5);''))"
  "\<not> isl (compileAction (example_globals picky) safeActionCodeNew ''SLIMY'' 4280207370
            (Text ''doRise(x, y, i, 0.5, 0.5);''))"
  "\<not> isl (compileAction (example_globals picky) safeActionCodeNew ''TNT'' 4280171775
            (Text ''explode();''))"
  "case_sum (\<lambda>e. e = SyntaxError) (\<lambda>f. False)
     (compileAction (example_globals picky) safeActionCodeUpdate ''TNT'' 4280171775 (Text ''@''))"
  by code_simp+

lemma example_compiles:
  "compileAction (example_globals picky) safeActionCodeNew (name broken)
     (packed (example_globals picky) broken) (action_code broken) = Inl SyntaxError"
  "\<not> isl (compileAction (example_globals picky) safeActionCodeNew (name repaired)
            (packed (example_globals picky) repaired) (action_code repaired))"
  "\<not> isl (compileAction (example_globals picky) safeActionCodeUpdate (name repaired) 4278387201
            (action_code repaired))"
  "\<not> isl (compileAction (example_globals picky) safeActionCodeNew (name acid)
            (packed (example_globals picky) acid) (action_code acid))"
  "\<not> isl (compileAction (example_globals picky) safeActionCodeNew (name slimy)
            (packed (example_globals picky) slimy) (action_code slimy))"
  "\<not> isl (compileAction (example_globals picky) safeActionCodeNew (name tnt)
            (packed (example_globals picky) tnt) (action_code tnt))"
  "compileAction (example_globals picky) safeActionCodeUpdate (name tnt_again) 4280171775
     (action_code tnt_again) = Inl SyntaxError"
  using example_runs
  by (simp_all add: example_fields example_packed split: sum.splits)

lemma initial_fields:
  "customElementColors initial_registry = Map.empty" "menuNames initial_registry = Map.empty"
  "elements initial_registry = []" "nextCustomElementIdx initial_registry = 64"
  by (simp_all add: initial_registry_def)

lemma example_fresh:
  "getElementColorFromName initial_registry nm = None"
  by (simp add: getElementColorFromName_def initial_registry_def)

lemma after_broken:
  "after initial_registry broken =
      initial_registry\<lparr>customElementColors := [''X'' \<mapsto> 4278387201],
                       menuNames := [4278387201 \<mapsto> ''X'']\<rparr>"
  using failed_new_registration [OF example_fresh example_compiles(1)]
  by (simp add: after_def example_fields example_packed initial_registry_def)



subsection \<open>The claims about registration\<close>

text \<open>
  Claim C1 says that a failed compilation of the fragment of a new name leaves the
  name-to-colour map and the menu-name map as they were. The code writes both maps before
  it compiles (lemma \<open>failed_new_registration\<close>). On the example host, registering the
  unseen name \<open>X\<close> with the fragment \<open>@\<close> raises the error, and afterwards \<open>X\<close> has a colour id
  and the id has a menu name. The entry is then taken for an existing particle: a later
  description of \<open>X\<close> that compiles goes through the update branch and never reaches the
  engine's element list, where the same description registered first would have been
  appended.
\<close>

theorem failed_compile_leaves_entry:
  "fst (registerCustomParticle (example_globals picky) initial_registry broken)
     = Inl (CreateFailed SyntaxError) \<and>
   customElementColors initial_registry ''X'' = None \<and>
   customElementColors (after initial_registry broken) ''X'' = Some 4278387201 \<and>
   menuNames initial_registry 4278387201 = None \<and>
   menuNames (after initial_registry broken) 4278387201 = Some ''X'' \<and>
   fst (registerCustomParticle (example_globals picky) (after initial_registry broken) repaired)
     = Inr 4278387201 \<and>
   elements (after (after initial_registry broken) repaired) = [] \<and>
   fst (registerCustomParticle (example_globals picky) initial_registry repaired)
     = Inr 4278387201 \<and>
   elements (after initial_registry repaired) = [4278387201]"
proof -
  have failed: "fst (registerCustomParticle (example_globals picky) initial_registry broken)
     = Inl (CreateFailed SyntaxError)"
    using failed_new_registration [OF example_fresh example_compiles(1)] by simp
  have known: "getElementColorFromName (after initial_registry broken) (name repaired) = Some 4278387201"
    by (simp add: after_broken getElementColorFromName_def example_fields)
  note u = update_registration [OF known example_compiles(3)]
  note n = new_registration [OF example_fresh example_compiles(2)]
  have "elements (after (after initial_registry broken) repaired) =
          elements (after initial_registry broken)"
    using u(4) by (simp only: after_def [of "after initial_registry broken" repaired])
  then have e1: "elements (after (after initial_registry broken) repaired) = []"
    by (simp add: after_broken initial_fields)
  have e2: "elements (after initial_registry repaired) = [4278387201]"
    using n(4) by (simp add: after_def example_packed initial_fields)
  show ?thesis
    using failed u(1) n(1) e1 e2
    by (simp add: after_broken example_packed initial_fields)
qed










section \<open>Properties of the sanitizer\<close>

subsection \<open>Matching and replacing\<close>

lemma accepts_simps [simp]:
  "accepts [] s"
  "accepts (Lit [] # q) s = accepts q s"
  "accepts (Lit (k # ks) # q) [] = False"
  "accepts (Lit (k # ks) # q) (c # cs) = (k = c \<and> accepts (Lit ks # q) cs)"
  "accepts (Many cl # q) [] = accepts q []"
  "accepts (Many cl # q) (c # cs) =
     (if in_cls cl c then accepts (Many cl # q) cs else accepts q (c # cs))"
  "accepts (Many1 cl # q) [] = False"
  "accepts (Many1 cl # q) (c # cs) = (in_cls cl c \<and> accepts (Many cl # q) cs)"
  "accepts (One cl # q) [] = False"
  "accepts (One cl # q) (c # cs) = (in_cls cl c \<and> accepts q cs)"
  by (auto simp: accepts_def startsWith_def split: option.splits prod.splits)

lemma test_re_simps:
  "test_re re [] = accepts re []"
  "test_re re (c # cs) = (accepts re (c # cs) \<or> test_re re cs)"
  by (simp_all add: accepts_def)

declare test_re.simps [simp del]

lemma fails_on_sound: "fails_on q r \<Longrightarrow> \<not> accepts q (r @ x)"
  by (induction q r rule: fails_on.induct) (auto split: if_splits)

lemma inert_through: "inert r q \<Longrightarrow> accepts q (r @ x) \<Longrightarrow> accepts q y"
  by (induction r q rule: inert.induct) (auto dest: fails_on_sound)

lemma accepts_step:
  "(\<And>q'. inert r q' \<Longrightarrow> accepts q' o' \<Longrightarrow> accepts q' cs) \<Longrightarrow>
     inert r q \<Longrightarrow> accepts q (c # o') \<Longrightarrow> accepts q (c # cs)"
proof (induction r q rule: inert.induct)
  case (1 r)
  then show ?case by simp
next
  case (2 r q)
  then show ?case by simp
next
  case (3 r k ks q)
  from 3(3) have "inert r (Lit ks # q)" by simp
  moreover from 3(4) have "k = c" "accepts (Lit ks # q) o'" by simp_all
  ultimately show ?case using 3(2) [of "Lit ks # q"] by simp
next
  case (4 r cl q)
  show ?case
  proof (cases "in_cls cl c")
    case True
    with 4(4) have "accepts (Many cl # q) o'" by simp
    with 4(3) 4(2) [of "Many cl # q"] True show ?thesis by simp
  next
    case False
    with 4 show ?thesis by simp
  qed
next
  case (5 r cl q)
  from 5(3) have "inert r (Many cl # q)" by simp
  moreover from 5(4) have "in_cls cl c" "accepts (Many cl # q) o'" by simp_all
  ultimately show ?case using 5(2) [of "Many cl # q"] by simp
next
  case (6 r cl q)
  from 6(3) have "inert r q" by simp
  moreover from 6(4) have "in_cls cl c" "accepts q o'" by simp_all
  ultimately show ?case using 6(2) [of q] by simp
qed

lemma accepts_replaceAll:
  "inert r q \<Longrightarrow> accepts q (replaceAll m (\<lambda>ps. r) prev s) \<Longrightarrow> accepts q s"
proof (induction s arbitrary: prev q)
  case Nil
  then show ?case
    using inert_through [of r q "[]" "[]"] by (simp split: option.splits)
next
  case (Cons c cs)
  show ?case
  proof (cases "m prev (c # cs)")
    case None
    with Cons.prems have "accepts q (c # replaceAll m (\<lambda>ps. r) (Some c) cs)" by simp
    with accepts_step [of r "replaceAll m (\<lambda>ps. r) (Some c) cs" cs q c] Cons.IH Cons.prems(1)
    show ?thesis by blast
  next
    case (Some ps)
    with Cons.prems(2) have "\<exists>x. accepts q (r @ x)"
      by (auto split: if_splits)
    with inert_through [OF Cons.prems(1)] show ?thesis by blast
  qed
qed

lemma test_re_skip: "tails_fail q r \<Longrightarrow> test_re q (r @ y) \<Longrightarrow> test_re q y"
  by (induction r) (auto simp: test_re_simps dest: fails_on_sound [where x = y])

lemma test_re_drop: "test_re q (drop k s) \<Longrightarrow> test_re q s"
proof (induction s arbitrary: k)
  case Nil
  then show ?case by simp
next
  case (Cons c cs)
  then show ?case by (cases k) (auto simp: test_re_simps)
qed

lemma replaceAll_preserves:
  assumes i: "inert r q" and t: "tails_fail q r"
  shows "\<not> test_re q s \<Longrightarrow> \<not> test_re q (replaceAll m (\<lambda>ps. r) prev s)"
proof (induction "length s" arbitrary: s prev rule: less_induct)
  case less
  show ?case
  proof (cases s)
    case Nil
    with less.prems show ?thesis
      using test_re_skip [OF t, of "[]"] by (auto split: option.splits)
  next
    case (Cons c cs)
    from less.prems Cons have nh: "\<not> accepts q (c # cs)" and nt: "\<not> test_re q cs"
      by (simp_all add: test_re_simps)
    have "\<not> test_re q (replaceAll m (\<lambda>ps. r) (Some c) cs)"
      using less.hyps [of cs "Some c"] nt Cons by simp
    moreover have "\<not> accepts q (c # replaceAll m (\<lambda>ps. r) (Some c) cs)"
      using accepts_step [of r "replaceAll m (\<lambda>ps. r) (Some c) cs" cs q c]
        accepts_replaceAll [of r _ m "Some c" cs] i nh
      by blast
    ultimately have copied: "\<not> test_re q (c # replaceAll m (\<lambda>ps. r) (Some c) cs)"
      by (simp add: test_re_simps)
    show ?thesis
    proof (cases "m prev (c # cs)")
      case None
      with Cons copied show ?thesis by simp
    next
      case (Some ps)
      show ?thesis
      proof (cases "concat ps = []")
        case True
        with Some Cons copied show ?thesis
          using test_re_skip [OF t] by auto
      next
        case False
        have "\<not> test_re q (drop (length (concat ps)) (c # cs))"
          using test_re_drop [of q "length (concat ps)" "c # cs"] less.prems Cons by blast
        moreover have "length (drop (length (concat ps)) (c # cs)) < length s"
          using False Cons by simp
        ultimately have "\<not> test_re q (replaceAll m (\<lambda>ps. r)
            (Some (last (take (length (concat ps)) (c # cs)))) (drop (length (concat ps)) (c # cs)))"
          using less.hyps by blast
        with Some False Cons show ?thesis
          using test_re_skip [OF t] by auto
      qed
    qed
  qed
qed

lemma literal_match_nonempty:
  "starts_with_literal q \<Longrightarrow> match_seq q s = Some ps \<Longrightarrow> concat ps \<noteq> []"
  by (induction q rule: starts_with_literal.induct)
     (auto split: option.splits if_splits prod.splits)

lemma literal_not_nullable: "starts_with_literal q \<Longrightarrow> \<not> accepts q []"
  by (induction q rule: starts_with_literal.induct) auto

lemma replaceAll_eliminates:
  assumes i: "inert r q" and t: "tails_fail q r" and l: "starts_with_literal q"
  shows "\<not> test_re q (replaceAll (re_matcher q) (\<lambda>ps. r) prev s)"
proof (induction "length s" arbitrary: s prev rule: less_induct)
  case less
  show ?case
  proof (cases s)
    case Nil
    then show ?thesis
      using literal_not_nullable [OF l]
      by (auto simp: re_matcher_def accepts_def test_re_simps split: option.splits)
  next
    case (Cons c cs)
    show ?thesis
    proof (cases "match_seq q (c # cs)")
      case None
      then have nh: "\<not> accepts q (c # cs)" by (simp add: accepts_def)
      have "\<not> accepts q (c # replaceAll (re_matcher q) (\<lambda>ps. r) (Some c) cs)"
        using accepts_step [of r "replaceAll (re_matcher q) (\<lambda>ps. r) (Some c) cs" cs q c]
          accepts_replaceAll [of r _ "re_matcher q" "Some c" cs] i nh
        by blast
      moreover have "\<not> test_re q (replaceAll (re_matcher q) (\<lambda>ps. r) (Some c) cs)"
        using less [of cs "Some c"] Cons by simp
      ultimately show ?thesis
        using None Cons by (simp add: re_matcher_def test_re_simps)
    next
      case (Some ps)
      with literal_match_nonempty [OF l] have ne: "concat ps \<noteq> []" by blast
      have "length (drop (length (concat ps)) (c # cs)) < length s"
        using ne Cons by simp
      then have "\<not> test_re q (replaceAll (re_matcher q) (\<lambda>ps. r)
            (Some (last (take (length (concat ps)) (c # cs)))) (drop (length (concat ps)) (c # cs)))"
        using less by blast
      with Some ne Cons show ?thesis
        using test_re_skip [OF t] by (auto simp: re_matcher_def)
    qed
  qed
qed


lemma sanitize_as_fold: "sanitizeActionCode x = foldl apply_rule x sanitize_rules"
  by (simp add: sanitizeActionCode_def sanitize_rules_def apply_rule_def Let_def)

lemma harmless_rules:
  "list_all (harmless q) rules \<Longrightarrow> \<not> test_re q s \<Longrightarrow> \<not> test_re q (foldl apply_rule s rules)"
proof (induction rules arbitrary: s)
  case Nil
  then show ?case by simp
next
  case (Cons rule rules)
  from Cons.prems have "\<not> test_re q (apply_rule s rule)"
    unfolding apply_rule_def replace_re_def harmless_def
    using replaceAll_preserves [of "snd rule" q s] by simp
  with Cons show ?case by simp
qed

lemma eliminated_sound:
  "eliminated q rules \<Longrightarrow> \<not> test_re q (foldl apply_rule s rules)"
proof (induction rules arbitrary: s)
  case Nil
  then show ?case by simp
next
  case (Cons rule rules)
  show ?case
  proof (cases "eliminated q rules")
    case True
    with Cons.IH show ?thesis by simp
  next
    case False
    with Cons.prems have h: "fst rule = q" "starts_with_literal q" "harmless q rule"
      "list_all (harmless q) rules"
      by auto
    have "\<not> test_re q (apply_rule s rule)"
      unfolding apply_rule_def replace_re_def
      using replaceAll_eliminates [of "snd rule" q] h
      by (simp add: harmless_def)
    with harmless_rules [OF h(4)] show ?thesis by simp
  qed
qed

lemma sanitize_eliminates:
  "eliminated re_while sanitize_rules"
  "eliminated re_for sanitize_rules"
  "eliminated re_eval sanitize_rules"
  "eliminated re_newFunction sanitize_rules"
  "eliminated [Lit ''setTimeout''] sanitize_rules"
  "eliminated [Lit ''setInterval''] sanitize_rules"
  "eliminated [Lit ''window.''] sanitize_rules"
  "eliminated [Lit ''document.''] sanitize_rules"
  "eliminated [Lit ''globalThis.''] sanitize_rules"
  by code_simp+

subsection \<open>The claims about the sanitizer\<close>


text \<open>
  Claim C6. Whatever the input, the sanitized text has no position at which \<open>while\<close> or
  \<open>for\<close>, optional white space and an opening parenthesis match: the two loop rules remove
  every such match, including those spliced together by the removal of a function header
  before them, and none of the later replacement texts can be part of one.
\<close>
theorem sanitize_leaves_no_loop:
  "\<not> test_re re_while (sanitizeActionCode x) \<and> \<not> test_re re_for (sanitizeActionCode x)"
  using eliminated_sound [OF sanitize_eliminates(1), of x]
    eliminated_sound [OF sanitize_eliminates(2), of x]
  by (simp add: sanitize_as_fold)





section \<open>Properties of the rewriter\<close>

subsection \<open>Replacements that keep a conditional\<close>




























subsection \<open>The claim about trivial fragments\<close>




end
